theory Spec2Isabelle
  imports Main "HOL-Library.Sublist"
begin

section \<open>The certificate issuance orchestrator \<open>letsgo\<close> (\<^verbatim>\<open>examples/python_usage.py\<close>)\<close>

text \<open>
  The Python function \<open>letsgo\<close> drives an external ACME client: it resolves the binary,
  builds the child environment, creates a temporary directory, optionally seeds the account
  key, runs the binary, reads four files back and removes the directory.

  Everything outside the function is a parameter of the model: the inherited environment,
  the path lookup, the temporary-name allocator and the external process are fields of a
  \<open>world\<close> record; the filesystem is passed in and returned. Exceptions are values of
  type \<open>error\<close>. Each call returns, besides its result and the final filesystem, the
  trace of the filesystem and process operations it performed, in order.

  Strings are lists of characters. Paths follow \<open>pathlib\<close> on POSIX; text is assumed
  to be encodable, so that encoding and decoding are the identity.
\<close>

subsection \<open>Constants of the module\<close>

definition BIN_NAME :: string where
  "BIN_NAME = ''letsgo''"

definition ACCOUNT_KEYFILE :: string where
  "ACCOUNT_KEYFILE = ''account.key''"

subsection \<open>Exceptions\<close>

datatype error =
    TypeError
  | IndexError
  | FileNotFoundError string
  | PermissionError string
  | OSError
  | CalledProcessError int "string list" string

subsection \<open>String operations\<close>

text \<open>\<open>s.split(sep)\<close> for a one-character separator: never an empty list.\<close>

fun str_split :: "char \<Rightarrow> string \<Rightarrow> string list" where
  "str_split sep [] = [[]]"
| "str_split sep (c # cs) =
     (if c = sep then [] # str_split sep cs
      else (case str_split sep cs of
              [] \<Rightarrow> [[c]]
            | x # xs \<Rightarrow> (c # x) # xs))"

text \<open>\<open>s.replace(old, new)\<close> for a one-character \<open>old\<close>.\<close>

fun str_replace :: "char \<Rightarrow> string \<Rightarrow> string \<Rightarrow> string" where
  "str_replace old new [] = []"
| "str_replace old new (c # cs) =
     (if c = old then new @ str_replace old new cs else c # str_replace old new cs)"

text \<open>\<open>sep.join(parts)\<close>.\<close>

fun str_join :: "string \<Rightarrow> string list \<Rightarrow> string" where
  "str_join sep [] = []"
| "str_join sep [x] = x"
| "str_join sep (x # y # ys) = x @ sep @ str_join sep (y # ys)"

text \<open>
  Line 37: \<open>main_domain = domain.split(",")[0].replace("*", "_")\<close>. The index \<open>[0]\<close>
  raises \<open>IndexError\<close> on an empty list.
\<close>

definition main_domain :: "string \<Rightarrow> error + string" where
  "main_domain d =
     (case str_split (CHR '','') d of
        [] \<Rightarrow> Inl IndexError
      | x # _ \<Rightarrow> Inr (str_replace (CHR ''*'') ''_'' x))"

subsection \<open>Paths (\<open>pathlib\<close> on POSIX)\<close>

text \<open>\<open>posixpath.splitroot\<close>: the root is \<open>/\<close>, or \<open>//\<close> for exactly two leading slashes.\<close>

definition splitroot :: "string \<Rightarrow> string \<times> string" where
  "splitroot p =
     (if \<not> prefix ''/'' p then ([], p)
      else if \<not> prefix ''//'' p \<or> prefix ''///'' p then (''/'', drop 1 p)
      else (''//'', drop 2 p))"

text \<open>
  \<open>str(pathlib.Path(s))\<close>, which is also \<open>Path(s).as_posix()\<close>: empty and \<open>.\<close>
  components are dropped, the empty path is \<open>.\<close>.
\<close>

definition pure_path :: "string \<Rightarrow> string" where
  "pure_path s =
     (case splitroot s of (root, rel) \<Rightarrow>
        (let parts = filter (\<lambda>x. x \<noteq> [] \<and> x \<noteq> ''.'') (str_split (CHR ''/'') rel)
         in if root = [] \<and> parts = [] then ''.'' else root @ str_join ''/'' parts))"

text \<open>\<open>posixpath.join(a, b)\<close>: an absolute \<open>b\<close> replaces \<open>a\<close>.\<close>

definition posix_join :: "string \<Rightarrow> string \<Rightarrow> string" where
  "posix_join a b =
     (if prefix ''/'' b then b
      else if a = [] \<or> suffix ''/'' a then a @ b
      else a @ ''/'' @ b)"

text \<open>\<open>root.joinpath(name)\<close>, as a string.\<close>

definition joinpath :: "string \<Rightarrow> string \<Rightarrow> string" where
  "joinpath root name = pure_path (posix_join root name)"

subsection \<open>The filesystem\<close>

record filesystem =
  dirs :: "string set"
  files :: "string \<rightharpoonup> string"

definition inside_dir :: "string \<Rightarrow> string \<Rightarrow> bool" where
  "inside_dir d p = prefix (d @ ''/'') p"

definition mkdir :: "string \<Rightarrow> filesystem \<Rightarrow> filesystem" where
  "mkdir d fs = fs\<lparr>dirs := insert d (dirs fs)\<rparr>"

text \<open>
  \<open>TemporaryDirectory.cleanup\<close>: \<open>shutil.rmtree\<close> of the directory; a directory that
  is already gone is not an error.
\<close>

definition rmtree :: "string \<Rightarrow> filesystem \<Rightarrow> filesystem" where
  "rmtree d fs =
     \<lparr>dirs = {p \<in> dirs fs. p \<noteq> d \<and> \<not> inside_dir d p},
      files = (\<lambda>p. if inside_dir d p then None else files fs p)\<rparr>"

text \<open>\<open>Path.write_text\<close> on POSIX: the text is stored as it is.\<close>

definition write_text :: "filesystem \<Rightarrow> string \<Rightarrow> string \<Rightarrow> filesystem" where
  "write_text fs p c = fs\<lparr>files := (files fs)(p \<mapsto> c)\<rparr>"

text \<open>
  \<open>Path.read_text\<close> opens the file in text mode with \<open>newline=None\<close>: universal
  newlines, so a carriage return followed by a line feed, and a carriage return alone, are
  each returned as one line feed.
\<close>

fun universal_newlines :: "string \<Rightarrow> string" where
  "universal_newlines [] = []"
| "universal_newlines [c] = (if c = CHR 0x0D then [CHR 0x0A] else [c])"
| "universal_newlines (c # d # ds) =
     (if c = CHR 0x0D \<and> d = CHR 0x0A then CHR 0x0A # universal_newlines ds
      else if c = CHR 0x0D then CHR 0x0A # universal_newlines (d # ds)
      else c # universal_newlines (d # ds))"

definition read_text :: "filesystem \<Rightarrow> string \<Rightarrow> error + string" where
  "read_text fs p =
     (case files fs p of
        None \<Rightarrow> Inl (FileNotFoundError p)
      | Some c \<Rightarrow> Inr (universal_newlines c))"

subsection \<open>The world outside the function\<close>

text \<open>
  What \<open>subprocess.check_output\<close> observes of the child: it could not be started (an
  \<open>OSError\<close>), or it exited with a status, its standard output and the filesystem it left.
\<close>

datatype proc_outcome =
    LaunchFailed error
  | Exited int string filesystem

record world =
  environ :: "string \<rightharpoonup> string"
  which :: "string \<Rightarrow> string option"
  resolve :: "string \<Rightarrow> error + string"
  mkdtemp :: "filesystem \<Rightarrow> error + string"
  run_process :: "string \<Rightarrow> (string \<rightharpoonup> string) \<Rightarrow> filesystem \<Rightarrow> proc_outcome"

text \<open>
  The operations a call performs: the directory created, a file written, the process
  invoked (with the program, the environment and the filesystem it is given, and what came
  of it), a file opened for reading, the directory removed.
\<close>

datatype event =
    Mkdtemp string
  | WriteText string string
  | Run string "string \<rightharpoonup> string" filesystem proc_outcome
  | ReadText string
  | Rmtree string

subsection \<open>The function \<open>letsgo\<close>\<close>

record letsgo_args =
  domain :: string
  account_email :: string
  keyvault :: string
  account_key :: string
  ca_dir :: string
  bin_name :: string

record outcome =
  result :: "error + (string \<rightharpoonup> string)"
  final_fs :: filesystem
  trace :: "event list"

text \<open>
  Lines 21 to 29. \<open>shutil.which\<close> returns \<open>None\<close> when nothing is found and
  \<open>pathlib.Path(None)\<close> raises \<open>TypeError\<close>; \<open>resolve(True)\<close> raises when the path
  does not exist. \<open>as_posix\<close> returns a string, so the test \<open>bin_path is None\<close> on
  line 25 is never true. Any other \<open>bin_name\<close> is used as given.
\<close>

definition resolve_bin :: "world \<Rightarrow> string \<Rightarrow> error + string" where
  "resolve_bin w name =
     (if name = BIN_NAME then
        (case which w name of
           None \<Rightarrow> Inl TypeError
         | Some p \<Rightarrow>
             (case resolve w (pure_path p) of
                Inl e \<Rightarrow> Inl e
              | Inr q \<Rightarrow> Inr q))
      else Inr name)"

text \<open>Lines 31 to 35: the copy of \<open>os.environ\<close> with the first four keys set.\<close>

definition base_env :: "world \<Rightarrow> letsgo_args \<Rightarrow> (string \<rightharpoonup> string)" where
  "base_env w a =
     (environ w)(''DOMAINS'' \<mapsto> domain a,
                 ''ACCOUNT_EMAIL'' \<mapsto> account_email a,
                 ''DNS_AUTH_TOKEN_VAULT'' \<mapsto> keyvault a,
                 ''CA_DIR'' \<mapsto> ca_dir a)"

text \<open>Lines 43 to 47: the three keys that depend on the temporary directory.\<close>

definition workspace_env ::
  "(string \<rightharpoonup> string) \<Rightarrow> string \<Rightarrow> string \<Rightarrow> string \<Rightarrow> (string \<rightharpoonup> string)" where
  "workspace_env cmd_env0 tmpdir md account_key_file =
     cmd_env0(''OUTPUT_DIRECTORY'' \<mapsto> tmpdir,
              ''FILENAME'' \<mapsto> md,
              ''ACCOUNT_KEY_FILE'' \<mapsto> account_key_file)"

text \<open>Lines 49 and 50: \<open>if account_key:\<close> is true of a non-empty string.\<close>

definition seed_account_key ::
  "string \<Rightarrow> string \<Rightarrow> filesystem \<Rightarrow> filesystem \<times> event list" where
  "seed_account_key account_key_file key fs =
     (if key \<noteq> [] then (write_text fs account_key_file key, [WriteText account_key_file key])
      else (fs, []))"

text \<open>Lines 54 to 58: four reads in order; the first that fails ends the block.\<close>

definition read_artifacts ::
  "filesystem \<Rightarrow> string \<Rightarrow> string \<Rightarrow> string
     \<Rightarrow> (error + string \<times> string \<times> string \<times> string) \<times> event list" where
  "read_artifacts fs root_dir md account_key_file =
     (let p1 = joinpath root_dir (md @ ''.crt'') in
      case read_text fs p1 of
        Inl e \<Rightarrow> (Inl e, [ReadText p1])
      | Inr cert \<Rightarrow>
     (let p2 = joinpath root_dir (md @ ''.key'') in
      case read_text fs p2 of
        Inl e \<Rightarrow> (Inl e, [ReadText p1, ReadText p2])
      | Inr key \<Rightarrow>
     (let p3 = joinpath root_dir (md @ ''.issuer.crt'') in
      case read_text fs p3 of
        Inl e \<Rightarrow> (Inl e, [ReadText p1, ReadText p2, ReadText p3])
      | Inr issuer \<Rightarrow>
     (case read_text fs account_key_file of
        Inl e \<Rightarrow> (Inl e, [ReadText p1, ReadText p2, ReadText p3, ReadText account_key_file])
      | Inr ak \<Rightarrow>
          (Inr (cert, key, issuer, ak),
           [ReadText p1, ReadText p2, ReadText p3, ReadText account_key_file])))))"

text \<open>
  Lines 40 to 58, the body of the \<open>with\<close> block: it returns the four texts or the
  exception that left the block, the filesystem and the operations performed.
  \<open>check_output\<close> raises \<open>CalledProcessError\<close> on a status other than 0 and lets the
  \<open>OSError\<close> of a failed launch through.
\<close>

definition with_body ::
  "world \<Rightarrow> letsgo_args \<Rightarrow> string \<Rightarrow> (string \<rightharpoonup> string) \<Rightarrow> string \<Rightarrow> string \<Rightarrow> filesystem
     \<Rightarrow> (error + string \<times> string \<times> string \<times> string) \<times> filesystem \<times> event list" where
  "with_body w a bin_path cmd_env0 md tmpdir fs =
     (let root_dir = pure_path tmpdir;
          account_key_file = joinpath root_dir ACCOUNT_KEYFILE;
          cmd_env = workspace_env cmd_env0 tmpdir md account_key_file
      in case seed_account_key account_key_file (account_key a) fs of
           (fs1, ev1) \<Rightarrow>
     (let po = run_process w bin_path cmd_env fs1;
          ev2 = ev1 @ [Run bin_path cmd_env fs1 po]
      in case po of
           LaunchFailed e \<Rightarrow> (Inl e, fs1, ev2)
         | Exited rc out fs2 \<Rightarrow>
             if rc \<noteq> 0 then (Inl (CalledProcessError rc [bin_path] out), fs2, ev2)
             else (case read_artifacts fs2 root_dir md account_key_file of
                     (r, ev3) \<Rightarrow> (r, fs2, ev2 @ ev3))))"

text \<open>Lines 61 to 67: the dictionary returned.\<close>

definition result_dict :: "string \<Rightarrow> string \<times> string \<times> string \<times> string \<Rightarrow> (string \<rightharpoonup> string)" where
  "result_dict md t =
     (case t of (cert, key, issuer, ak) \<Rightarrow>
        [''alias'' \<mapsto> md,
         ''certificate'' \<mapsto> cert,
         ''key'' \<mapsto> key,
         ''issuer'' \<mapsto> issuer,
         ''account_key'' \<mapsto> ak])"

text \<open>
  The whole function. An exception before the \<open>with\<close> statement leaves the filesystem
  untouched; the directory is removed when the block is left, by a return or by an
  exception.
\<close>

definition letsgo :: "world \<Rightarrow> letsgo_args \<Rightarrow> filesystem \<Rightarrow> outcome" where
  "letsgo w a fs =
     (case resolve_bin w (bin_name a) of
        Inl e \<Rightarrow> \<lparr>result = Inl e, final_fs = fs, trace = []\<rparr>
      | Inr bin_path \<Rightarrow>
     (let cmd_env0 = base_env w a in
      case main_domain (domain a) of
        Inl e \<Rightarrow> \<lparr>result = Inl e, final_fs = fs, trace = []\<rparr>
      | Inr md \<Rightarrow>
     (case mkdtemp w fs of
        Inl e \<Rightarrow> \<lparr>result = Inl e, final_fs = fs, trace = []\<rparr>
      | Inr tmpdir \<Rightarrow>
     (case with_body w a bin_path cmd_env0 md tmpdir (mkdir tmpdir fs) of
        (r, fs2, evs) \<Rightarrow>
          \<lparr>result = (case r of Inl e \<Rightarrow> Inl e | Inr t \<Rightarrow> Inr (result_dict md t)),
           final_fs = rmtree tmpdir fs2,
           trace = Mkdtemp tmpdir # evs @ [Rmtree tmpdir]\<rparr>))))"

subsection \<open>Vocabulary of the specification\<close>

text \<open>
  The primary alias in the specification's words: the substring before the first comma,
  with every \<open>*\<close> replaced by \<open>_\<close>.
\<close>

definition deriveAlias_spec :: "string \<Rightarrow> string" where
  "deriveAlias_spec d =
     map (\<lambda>c. if c = CHR ''*'' then CHR ''_'' else c) (takeWhile (\<lambda>c. c \<noteq> CHR '','') d)"


text \<open>The seven keys that lines 32 to 47 set.\<close>

definition overlay_keys :: "string set" where
  "overlay_keys =
     {''DOMAINS'', ''ACCOUNT_EMAIL'', ''DNS_AUTH_TOKEN_VAULT'', ''CA_DIR'',
      ''OUTPUT_DIRECTORY'', ''FILENAME'', ''ACCOUNT_KEY_FILE''}"

text \<open>
  What the child process is given in a call that reaches line 52, in terms of the pieces
  of \<open>letsgo\<close>: the path of the account-key file, the environment, the filesystem, and
  what came of the process.
\<close>

definition account_key_path :: "string \<Rightarrow> string" where
  "account_key_path tmpdir = joinpath (pure_path tmpdir) ACCOUNT_KEYFILE"

definition child_env :: "world \<Rightarrow> letsgo_args \<Rightarrow> string \<Rightarrow> (string \<rightharpoonup> string)" where
  "child_env w a tmpdir =
     workspace_env (base_env w a) tmpdir (deriveAlias_spec (domain a)) (account_key_path tmpdir)"

definition child_fs :: "letsgo_args \<Rightarrow> string \<Rightarrow> filesystem \<Rightarrow> filesystem" where
  "child_fs a tmpdir fs =
     fst (seed_account_key (account_key_path tmpdir) (account_key a) (mkdir tmpdir fs))"

definition child_outcome ::
  "world \<Rightarrow> letsgo_args \<Rightarrow> string \<Rightarrow> string \<Rightarrow> filesystem \<Rightarrow> proc_outcome" where
  "child_outcome w a b tmpdir fs = run_process w b (child_env w a tmpdir) (child_fs a tmpdir fs)"

subsection \<open>Stub agents and a small world, for concrete runs\<close>

text \<open>
  A stub agent writes the given files and exits with the given status; a missing binary
  cannot be started.
\<close>

definition stub_agent ::
  "int \<Rightarrow> (string \<times> string) list \<Rightarrow> string \<Rightarrow> (string \<rightharpoonup> string) \<Rightarrow> filesystem \<Rightarrow> proc_outcome" where
  "stub_agent rc outs bin env f = Exited rc [] (f\<lparr>files := files f ++ map_of outs\<rparr>)"

definition missing_binary :: "string \<Rightarrow> (string \<rightharpoonup> string) \<Rightarrow> filesystem \<Rightarrow> proc_outcome" where
  "missing_binary bin env f = LaunchFailed (FileNotFoundError bin)"

definition on_path :: "string \<Rightarrow> string option" where
  "on_path name = (if name = BIN_NAME then Some ''/usr/bin/letsgo'' else None)"

definition not_on_path :: "string \<Rightarrow> string option" where
  "not_on_path name = None"

definition demo_world ::
  "(string \<Rightarrow> string option)
     \<Rightarrow> (string \<Rightarrow> (string \<rightharpoonup> string) \<Rightarrow> filesystem \<Rightarrow> proc_outcome) \<Rightarrow> world" where
  "demo_world lookup agent =
     \<lparr>environ = [''PATH'' \<mapsto> ''/usr/bin'', ''FILENAME'' \<mapsto> ''inherited''],
      which = lookup,
      resolve = Inr,
      mkdtemp = (\<lambda>f. Inr ''/tmp/ws''),
      run_process = agent\<rparr>"

definition demo_args :: "string \<Rightarrow> string \<Rightarrow> string \<Rightarrow> letsgo_args" where
  "demo_args d key bin =
     \<lparr>domain = d,
      account_email = ''support@example.com'',
      keyvault = ''demo-keyvault'',
      account_key = key,
      ca_dir = ''STAGING'',
      bin_name = bin\<rparr>"

definition demo_fs :: filesystem where
  "demo_fs = \<lparr>dirs = {''/tmp''}, files = Map.empty\<rparr>"

definition demo_outputs :: "(string \<times> string) list" where
  "demo_outputs =
     [(''/tmp/ws/demo.example.com.crt'', ''CERT''),
      (''/tmp/ws/demo.example.com.key'', ''KEY''),
      (''/tmp/ws/demo.example.com.issuer.crt'', ''ISSUER''),
      (''/tmp/ws/account.key'', ''ACCOUNT'')]"


definition demo_outputs_no_account :: "(string \<times> string) list" where
  "demo_outputs_no_account =
     [(''/tmp/ws/demo.example.com.crt'', ''CERT''),
      (''/tmp/ws/demo.example.com.key'', ''KEY''),
      (''/tmp/ws/demo.example.com.issuer.crt'', ''ISSUER'')]"


text \<open>An account key whose line ends with a carriage return and a line feed.\<close>

definition crlf_key :: string where
  "crlf_key = [CHR ''K'', CHR ''E'', CHR ''Y'', CHR 0x0D, CHR 0x0A]"

section \<open>Lemmas\<close>

subsection \<open>Strings\<close>

lemma str_split_takeWhile:
  "\<exists>xs. str_split sep s = takeWhile (\<lambda>c. c \<noteq> sep) s # xs"
  by (induction s) (auto split: list.splits)

lemma str_replace_single:
  "str_replace old [n] s = map (\<lambda>c. if c = old then n else c) s"
  by (induction s) auto

lemma main_domain_total: "main_domain d = Inr (deriveAlias_spec d)"
proof -
  obtain xs where "str_split (CHR '','') d = takeWhile (\<lambda>c. c \<noteq> CHR '','') d # xs"
    using str_split_takeWhile by blast
  then show ?thesis
    by (simp add: main_domain_def deriveAlias_spec_def str_replace_single)
qed


lemma universal_newlines_id: "CHR 0x0D \<notin> set s \<Longrightarrow> universal_newlines s = s"
  by (induction s rule: universal_newlines.induct) auto

lemma universal_newlines_no_cr: "CHR 0x0D \<notin> set (universal_newlines s)"
  by (induction s rule: universal_newlines.induct) auto

subsection \<open>The shape of a call\<close>

lemma read_artifacts_events:
  "e \<in> set (snd (read_artifacts f r md akf)) \<Longrightarrow> \<exists>p. e = ReadText p"
  by (auto simp: read_artifacts_def Let_def split: sum.splits)


lemma read_artifacts_Inr:
  "fst (read_artifacts f (pure_path d) md (account_key_path d)) = Inr t \<Longrightarrow>
   \<exists>c1 c2 c3 c4.
     files f (joinpath (pure_path d) (md @ ''.crt'')) = Some c1 \<and>
     files f (joinpath (pure_path d) (md @ ''.key'')) = Some c2 \<and>
     files f (joinpath (pure_path d) (md @ ''.issuer.crt'')) = Some c3 \<and>
     files f (account_key_path d) = Some c4 \<and>
     t = (universal_newlines c1, universal_newlines c2, universal_newlines c3,
          universal_newlines c4)"
  by (auto simp: read_artifacts_def read_text_def Let_def split: option.splits)

lemma read_artifacts_present:
  "files f (joinpath (pure_path d) (md @ ''.crt'')) = Some c1 \<Longrightarrow>
   files f (joinpath (pure_path d) (md @ ''.key'')) = Some c2 \<Longrightarrow>
   files f (joinpath (pure_path d) (md @ ''.issuer.crt'')) = Some c3 \<Longrightarrow>
   files f (account_key_path d) = Some c4 \<Longrightarrow>
   fst (read_artifacts f (pure_path d) md (account_key_path d)) =
     Inr (universal_newlines c1, universal_newlines c2, universal_newlines c3,
          universal_newlines c4)"
  by (simp add: read_artifacts_def read_text_def Let_def)

lemma seed_events:
  "e \<in> set (snd (seed_account_key akf k f)) \<Longrightarrow> e = WriteText akf k \<and> k \<noteq> []"
  by (auto simp: seed_account_key_def split: if_splits)

lemma letsgo_resolve_failed:
  "resolve_bin w (bin_name a) = Inl e \<Longrightarrow>
   letsgo w a fs = \<lparr>result = Inl e, final_fs = fs, trace = []\<rparr>"
  by (simp add: letsgo_def)

lemma letsgo_mkdtemp_failed:
  "resolve_bin w (bin_name a) = Inr b \<Longrightarrow> mkdtemp w fs = Inl e \<Longrightarrow>
   letsgo w a fs = \<lparr>result = Inl e, final_fs = fs, trace = []\<rparr>"
  by (simp add: letsgo_def main_domain_total)

lemma trace_letsgo:
  "resolve_bin w (bin_name a) = Inr b \<Longrightarrow> mkdtemp w fs = Inr d \<Longrightarrow>
   trace (letsgo w a fs) =
     Mkdtemp d #
     snd (seed_account_key (account_key_path d) (account_key a) (mkdir d fs)) @
     Run b (child_env w a d) (child_fs a d fs) (child_outcome w a b d fs) #
     (case child_outcome w a b d fs of
        LaunchFailed e \<Rightarrow> []
      | Exited rc out f2 \<Rightarrow>
          if rc \<noteq> 0 then []
          else snd (read_artifacts f2 (pure_path d) (deriveAlias_spec (domain a))
                      (account_key_path d))) @
     [Rmtree d]"
  by (simp add: letsgo_def main_domain_total with_body_def Let_def child_outcome_def
        child_env_def child_fs_def account_key_path_def
      split: prod.splits proc_outcome.splits)

lemma result_letsgo:
  "resolve_bin w (bin_name a) = Inr b \<Longrightarrow> mkdtemp w fs = Inr d \<Longrightarrow>
   result (letsgo w a fs) =
     (case child_outcome w a b d fs of
        LaunchFailed e \<Rightarrow> Inl e
      | Exited rc out f2 \<Rightarrow>
          if rc \<noteq> 0 then Inl (CalledProcessError rc [b] out)
          else (case fst (read_artifacts f2 (pure_path d) (deriveAlias_spec (domain a))
                            (account_key_path d)) of
                  Inl e \<Rightarrow> Inl e
                | Inr t \<Rightarrow> Inr (result_dict (deriveAlias_spec (domain a)) t)))"
  by (simp add: letsgo_def main_domain_total with_body_def Let_def child_outcome_def
        child_env_def child_fs_def account_key_path_def
      split: prod.splits proc_outcome.splits)


lemma trace_cases:
  "(trace (letsgo w a fs) = [] \<and> final_fs (letsgo w a fs) = fs \<and>
      (\<exists>e. result (letsgo w a fs) = Inl e)) \<or>
   (\<exists>b d. resolve_bin w (bin_name a) = Inr b \<and> mkdtemp w fs = Inr d)"
proof (cases "resolve_bin w (bin_name a)")
  case (Inl e)
  then show ?thesis by (simp add: letsgo_resolve_failed)
next
  case (Inr b)
  then show ?thesis
    by (cases "mkdtemp w fs") (simp_all add: letsgo_mkdtemp_failed)
qed

lemma trace_inv_Mkdtemp:
  assumes "Mkdtemp d \<in> set (trace (letsgo w a fs))"
  shows "mkdtemp w fs = Inr d \<and> (\<exists>b. resolve_bin w (bin_name a) = Inr b)"
proof -
  from assms have "trace (letsgo w a fs) \<noteq> []" by auto
  with trace_cases [of w a fs]
  obtain b d' where b: "resolve_bin w (bin_name a) = Inr b" and d': "mkdtemp w fs = Inr d'"
    by blast
  from assms have "d = d'"
    unfolding trace_letsgo [OF b d']
    by (auto dest: seed_events read_artifacts_events split: proc_outcome.splits if_splits)
  with b d' show ?thesis by simp
qed

lemma trace_inv_Run:
  assumes "Run b env f1 po \<in> set (trace (letsgo w a fs))"
  shows "resolve_bin w (bin_name a) = Inr b \<and>
         (\<exists>d. mkdtemp w fs = Inr d \<and> env = child_env w a d \<and> f1 = child_fs a d fs \<and>
              po = child_outcome w a b d fs)"
proof -
  from assms have "trace (letsgo w a fs) \<noteq> []" by auto
  with trace_cases [of w a fs]
  obtain b' d where b: "resolve_bin w (bin_name a) = Inr b'" and d: "mkdtemp w fs = Inr d"
    by blast
  from assms have "b = b' \<and> env = child_env w a d \<and> f1 = child_fs a d fs \<and>
      po = child_outcome w a b' d fs"
    unfolding trace_letsgo [OF b d]
    by (auto dest: seed_events read_artifacts_events split: proc_outcome.splits if_splits)
  with b d show ?thesis by simp
qed

subsection \<open>The concrete runs, evaluated\<close>

lemma demo_pure_path:
  "pure_path ''/tmp/ws'' = ''/tmp/ws''"
  "pure_path ''/usr/bin/letsgo'' = ''/usr/bin/letsgo''"
  by (simp_all add: pure_path_def splitroot_def)

lemma demo_account_key_path: "account_key_path ''/tmp/ws'' = ''/tmp/ws/account.key''"
  by (simp add: account_key_path_def joinpath_def posix_join_def pure_path_def splitroot_def
        ACCOUNT_KEYFILE_def suffix_to_prefix)


lemma demo_joinpath:
  "joinpath ''/tmp/ws'' ''demo.example.com.crt'' = ''/tmp/ws/demo.example.com.crt''"
  "joinpath ''/tmp/ws'' ''demo.example.com.key'' = ''/tmp/ws/demo.example.com.key''"
  "joinpath ''/tmp/ws'' ''demo.example.com.issuer.crt'' = ''/tmp/ws/demo.example.com.issuer.crt''"
  by (simp_all add: joinpath_def posix_join_def pure_path_def splitroot_def suffix_to_prefix)

lemma demo_read_artifacts:
  "fst (read_artifacts f ''/tmp/ws'' ''demo.example.com'' ''/tmp/ws/account.key'') =
     (case files f ''/tmp/ws/demo.example.com.crt'' of
        None \<Rightarrow> Inl (FileNotFoundError ''/tmp/ws/demo.example.com.crt'')
      | Some c1 \<Rightarrow>
     (case files f ''/tmp/ws/demo.example.com.key'' of
        None \<Rightarrow> Inl (FileNotFoundError ''/tmp/ws/demo.example.com.key'')
      | Some c2 \<Rightarrow>
     (case files f ''/tmp/ws/demo.example.com.issuer.crt'' of
        None \<Rightarrow> Inl (FileNotFoundError ''/tmp/ws/demo.example.com.issuer.crt'')
      | Some c3 \<Rightarrow>
     (case files f ''/tmp/ws/account.key'' of
        None \<Rightarrow> Inl (FileNotFoundError ''/tmp/ws/account.key'')
      | Some c4 \<Rightarrow>
          Inr (universal_newlines c1, universal_newlines c2, universal_newlines c3,
               universal_newlines c4)))))"
  by (simp add: read_artifacts_def read_text_def Let_def demo_joinpath split: option.splits)

lemma demo_alias: "deriveAlias_spec ''demo.example.com'' = ''demo.example.com''"
  by (simp add: deriveAlias_spec_def)

lemma demo_resolve:
  "resolve_bin (demo_world on_path ag) (bin_name (demo_args dm k BIN_NAME)) = Inr ''/usr/bin/letsgo''"
  by (simp add: resolve_bin_def demo_world_def demo_args_def on_path_def demo_pure_path)

lemma demo_resolve_explicit:
  "resolve_bin (demo_world lk ag) (bin_name (demo_args dm k ''/opt/none/letsgo'')) =
     Inr ''/opt/none/letsgo''"
  by (simp add: resolve_bin_def demo_args_def BIN_NAME_def)

lemma demo_mkdtemp: "mkdtemp (demo_world lk ag) f = Inr ''/tmp/ws''"
  by (simp add: demo_world_def)

lemma demo_child_fs_seeded:
  "k \<noteq> [] \<Longrightarrow> child_fs (demo_args dm k bn) ''/tmp/ws'' demo_fs =
     \<lparr>dirs = {''/tmp/ws'', ''/tmp''}, files = [''/tmp/ws/account.key'' \<mapsto> k]\<rparr>"
  by (simp add: child_fs_def seed_account_key_def demo_args_def demo_fs_def mkdir_def
        write_text_def demo_account_key_path)


lemma demo_child_outcome_stub:
  "child_outcome (demo_world lk (stub_agent rc outs)) a b d f =
     Exited rc [] ((child_fs a d f)\<lparr>files := files (child_fs a d f) ++ map_of outs\<rparr>)"
  by (simp add: child_outcome_def demo_world_def stub_agent_def)

lemma demo_child_outcome_missing:
  "child_outcome (demo_world lk missing_binary) a b d f = LaunchFailed (FileNotFoundError b)"
  by (simp add: child_outcome_def demo_world_def missing_binary_def)

lemma demo_child_fs_files:
  "files (child_fs (demo_args dm k bn) ''/tmp/ws'' demo_fs) =
     (if k \<noteq> [] then [''/tmp/ws/account.key'' \<mapsto> k] else Map.empty)"
  by (simp add: child_fs_def seed_account_key_def demo_args_def demo_fs_def mkdir_def
        write_text_def demo_account_key_path)

lemma crlf_key_read: "universal_newlines crlf_key = [CHR ''K'', CHR ''E'', CHR ''Y'', CHR 0x0A]"
  by (simp add: crlf_key_def)

section \<open>The claims\<close>

subsection \<open>Workspace cleanup\<close>



subsection \<open>The primary alias\<close>

text \<open>
  C2. For every domains string, the alias that line 37 computes is the substring before
  the first comma with every \<open>*\<close> replaced by \<open>_\<close>; the domains
  \<open>*.example.com,example.com\<close> give \<open>_.example.com\<close>.
\<close>

theorem alias_is_first_domain_sanitized:
  "main_domain d = Inr (deriveAlias_spec d) \<and>
   deriveAlias_spec d =
     map (\<lambda>c. if c = CHR ''*'' then CHR ''_'' else c) (takeWhile (\<lambda>c. c \<noteq> CHR '','') d) \<and>
   main_domain ''*.example.com,example.com'' = Inr ''_.example.com''"
proof (intro conjI)
  show "main_domain d = Inr (deriveAlias_spec d)"
    by (rule main_domain_total)
  show "deriveAlias_spec d =
     map (\<lambda>c. if c = CHR ''*'' then CHR ''_'' else c) (takeWhile (\<lambda>c. c \<noteq> CHR '','') d)"
    by (simp add: deriveAlias_spec_def)
  show "main_domain ''*.example.com,example.com'' = Inr ''_.example.com''"
    by (simp add: main_domain_def)
qed

subsection \<open>The environment of the child process\<close>

text \<open>
  C3. The environment given to the child process is the inherited environment with the
  seven keys \<open>DOMAINS\<close>, \<open>ACCOUNT_EMAIL\<close>, \<open>DNS_AUTH_TOKEN_VAULT\<close>, \<open>CA_DIR\<close>,
  \<open>OUTPUT_DIRECTORY\<close>, \<open>FILENAME\<close> and \<open>ACCOUNT_KEY_FILE\<close> set from the request and
  the temporary directory: its keys are the inherited ones and these seven, a key set here
  shadows an inherited one, and every other inherited key keeps its value.
\<close>

theorem child_environment_is_overlay:
  assumes "Run b env f1 po \<in> set (trace (letsgo w a fs))"
    and "Mkdtemp d \<in> set (trace (letsgo w a fs))"
  shows "env = (environ w)(''DOMAINS'' \<mapsto> domain a,
                           ''ACCOUNT_EMAIL'' \<mapsto> account_email a,
                           ''DNS_AUTH_TOKEN_VAULT'' \<mapsto> keyvault a,
                           ''CA_DIR'' \<mapsto> ca_dir a,
                           ''OUTPUT_DIRECTORY'' \<mapsto> d,
                           ''FILENAME'' \<mapsto> deriveAlias_spec (domain a),
                           ''ACCOUNT_KEY_FILE'' \<mapsto> joinpath (pure_path d) ACCOUNT_KEYFILE) \<and>
         dom env = dom (environ w) \<union> overlay_keys \<and>
         (\<forall>k. k \<notin> overlay_keys \<longrightarrow> env k = environ w k) \<and>
         po = run_process w b env f1"
proof -
  from trace_inv_Mkdtemp [OF assms(2)] have d: "mkdtemp w fs = Inr d"
    by simp
  with trace_inv_Run [OF assms(1)]
  have env: "env = child_env w a d" and po: "po = child_outcome w a b d fs"
    and f1: "f1 = child_fs a d fs"
    by auto
  have eq: "child_env w a d =
      (environ w)(''DOMAINS'' \<mapsto> domain a,
                  ''ACCOUNT_EMAIL'' \<mapsto> account_email a,
                  ''DNS_AUTH_TOKEN_VAULT'' \<mapsto> keyvault a,
                  ''CA_DIR'' \<mapsto> ca_dir a,
                  ''OUTPUT_DIRECTORY'' \<mapsto> d,
                  ''FILENAME'' \<mapsto> deriveAlias_spec (domain a),
                  ''ACCOUNT_KEY_FILE'' \<mapsto> joinpath (pure_path d) ACCOUNT_KEYFILE)"
    by (simp add: child_env_def workspace_env_def base_env_def account_key_path_def)
  have dm: "dom (child_env w a d) = dom (environ w) \<union> overlay_keys"
    unfolding eq overlay_keys_def by auto
  have keep: "\<forall>k. k \<notin> overlay_keys \<longrightarrow> child_env w a d k = environ w k"
    unfolding eq overlay_keys_def by simp
  from eq dm keep show ?thesis
    unfolding env po f1 child_outcome_def by simp
qed

theorem child_environment_is_overlay_witness:
  "Run ''/usr/bin/letsgo''
       (child_env (demo_world on_path (stub_agent 0 demo_outputs))
          (demo_args ''demo.example.com'' ''SEED'' BIN_NAME) ''/tmp/ws'')
       (child_fs (demo_args ''demo.example.com'' ''SEED'' BIN_NAME) ''/tmp/ws'' demo_fs)
       (child_outcome (demo_world on_path (stub_agent 0 demo_outputs))
          (demo_args ''demo.example.com'' ''SEED'' BIN_NAME) ''/usr/bin/letsgo'' ''/tmp/ws'' demo_fs)
     \<in> set (trace (letsgo (demo_world on_path (stub_agent 0 demo_outputs))
                (demo_args ''demo.example.com'' ''SEED'' BIN_NAME) demo_fs)) \<and>
   Mkdtemp ''/tmp/ws''
     \<in> set (trace (letsgo (demo_world on_path (stub_agent 0 demo_outputs))
                (demo_args ''demo.example.com'' ''SEED'' BIN_NAME) demo_fs)) \<and>
   child_env (demo_world on_path (stub_agent 0 demo_outputs))
       (demo_args ''demo.example.com'' ''SEED'' BIN_NAME) ''/tmp/ws'' =
     [''PATH'' \<mapsto> ''/usr/bin'',
      ''DOMAINS'' \<mapsto> ''demo.example.com'',
      ''ACCOUNT_EMAIL'' \<mapsto> ''support@example.com'',
      ''DNS_AUTH_TOKEN_VAULT'' \<mapsto> ''demo-keyvault'',
      ''CA_DIR'' \<mapsto> ''STAGING'',
      ''OUTPUT_DIRECTORY'' \<mapsto> ''/tmp/ws'',
      ''FILENAME'' \<mapsto> ''demo.example.com'',
      ''ACCOUNT_KEY_FILE'' \<mapsto> ''/tmp/ws/account.key''] \<and>
   ''PATH'' \<notin> overlay_keys \<and>
   child_env (demo_world on_path (stub_agent 0 demo_outputs))
       (demo_args ''demo.example.com'' ''SEED'' BIN_NAME) ''/tmp/ws'' ''PATH'' = Some ''/usr/bin''"
proof -
  let ?w = "demo_world on_path (stub_agent 0 demo_outputs)"
  let ?a = "demo_args ''demo.example.com'' ''SEED'' BIN_NAME"
  have run: "Run ''/usr/bin/letsgo'' (child_env ?w ?a ''/tmp/ws'') (child_fs ?a ''/tmp/ws'' demo_fs)
       (child_outcome ?w ?a ''/usr/bin/letsgo'' ''/tmp/ws'' demo_fs)
     \<in> set (trace (letsgo ?w ?a demo_fs))"
    by (simp add: trace_letsgo [OF demo_resolve demo_mkdtemp])
  have mk: "Mkdtemp ''/tmp/ws'' \<in> set (trace (letsgo ?w ?a demo_fs))"
    by (simp add: trace_letsgo [OF demo_resolve demo_mkdtemp])
  have nk: "''PATH'' \<notin> overlay_keys"
    by (simp add: overlay_keys_def)
  have inh: "environ ?w = [''PATH'' \<mapsto> ''/usr/bin'', ''FILENAME'' \<mapsto> ''inherited'']"
    by (simp add: demo_world_def)
  have flds: "domain ?a = ''demo.example.com''" "account_email ?a = ''support@example.com''"
    "keyvault ?a = ''demo-keyvault''" "ca_dir ?a = ''STAGING''"
    by (simp_all add: demo_args_def)
  from child_environment_is_overlay [OF run mk]
  have e: "child_env ?w ?a ''/tmp/ws'' =
      (environ ?w)(''DOMAINS'' \<mapsto> domain ?a,
                   ''ACCOUNT_EMAIL'' \<mapsto> account_email ?a,
                   ''DNS_AUTH_TOKEN_VAULT'' \<mapsto> keyvault ?a,
                   ''CA_DIR'' \<mapsto> ca_dir ?a,
                   ''OUTPUT_DIRECTORY'' \<mapsto> ''/tmp/ws'',
                   ''FILENAME'' \<mapsto> deriveAlias_spec (domain ?a),
                   ''ACCOUNT_KEY_FILE'' \<mapsto> joinpath (pure_path ''/tmp/ws'') ACCOUNT_KEYFILE)"
    and k: "\<forall>k. k \<notin> overlay_keys \<longrightarrow> child_env ?w ?a ''/tmp/ws'' k = environ ?w k"
    by blast+
  have e': "child_env ?w ?a ''/tmp/ws'' =
     [''PATH'' \<mapsto> ''/usr/bin'',
      ''DOMAINS'' \<mapsto> ''demo.example.com'',
      ''ACCOUNT_EMAIL'' \<mapsto> ''support@example.com'',
      ''DNS_AUTH_TOKEN_VAULT'' \<mapsto> ''demo-keyvault'',
      ''CA_DIR'' \<mapsto> ''STAGING'',
      ''OUTPUT_DIRECTORY'' \<mapsto> ''/tmp/ws'',
      ''FILENAME'' \<mapsto> ''demo.example.com'',
      ''ACCOUNT_KEY_FILE'' \<mapsto> ''/tmp/ws/account.key'']"
    unfolding e inh flds demo_alias
    using demo_account_key_path
    by (auto simp add: account_key_path_def fun_eq_iff)
  from k nk inh have p: "child_env ?w ?a ''/tmp/ws'' ''PATH'' = Some ''/usr/bin''"
    by simp
  from run mk e' nk p show ?thesis by blast
qed

subsection \<open>Resolution of the executable\<close>

text \<open>
  A binary name other than the default is not resolved at all. With the explicit path
  \<open>/opt/none/letsgo\<close>, which no lookup finds and which cannot be started, the call
  creates the temporary directory and attempts the launch before it fails.
\<close>

theorem explicit_missing_binary_counterexample:
  "not_on_path ''/opt/none/letsgo'' = None \<and>
   run_process (demo_world not_on_path missing_binary) ''/opt/none/letsgo''
       (child_env (demo_world not_on_path missing_binary)
          (demo_args ''demo.example.com'' [] ''/opt/none/letsgo'') ''/tmp/ws'')
       (child_fs (demo_args ''demo.example.com'' [] ''/opt/none/letsgo'') ''/tmp/ws'' demo_fs) =
     LaunchFailed (FileNotFoundError ''/opt/none/letsgo'') \<and>
   resolve_bin (demo_world not_on_path missing_binary)
       (bin_name (demo_args ''demo.example.com'' [] ''/opt/none/letsgo'')) =
     Inr ''/opt/none/letsgo'' \<and>
   result (letsgo (demo_world not_on_path missing_binary)
       (demo_args ''demo.example.com'' [] ''/opt/none/letsgo'') demo_fs) =
     Inl (FileNotFoundError ''/opt/none/letsgo'') \<and>
   trace (letsgo (demo_world not_on_path missing_binary)
       (demo_args ''demo.example.com'' [] ''/opt/none/letsgo'') demo_fs) =
     [Mkdtemp ''/tmp/ws'',
      Run ''/opt/none/letsgo''
        (child_env (demo_world not_on_path missing_binary)
           (demo_args ''demo.example.com'' [] ''/opt/none/letsgo'') ''/tmp/ws'')
        (child_fs (demo_args ''demo.example.com'' [] ''/opt/none/letsgo'') ''/tmp/ws'' demo_fs)
        (LaunchFailed (FileNotFoundError ''/opt/none/letsgo'')),
      Rmtree ''/tmp/ws'']"
proof (intro conjI)
  let ?w = "demo_world not_on_path missing_binary"
  let ?a = "demo_args ''demo.example.com'' [] ''/opt/none/letsgo''"
  have k: "account_key ?a = []"
    by (simp add: demo_args_def)
  show "not_on_path ''/opt/none/letsgo'' = None"
    by (simp add: not_on_path_def)
  show "run_process ?w ''/opt/none/letsgo'' (child_env ?w ?a ''/tmp/ws'')
      (child_fs ?a ''/tmp/ws'' demo_fs) = LaunchFailed (FileNotFoundError ''/opt/none/letsgo'')"
    by (simp add: demo_world_def missing_binary_def)
  show "resolve_bin ?w (bin_name ?a) = Inr ''/opt/none/letsgo''"
    by (rule demo_resolve_explicit)
  show "result (letsgo ?w ?a demo_fs) = Inl (FileNotFoundError ''/opt/none/letsgo'')"
    by (simp add: result_letsgo [OF demo_resolve_explicit demo_mkdtemp] demo_child_outcome_missing)
  show "trace (letsgo ?w ?a demo_fs) =
     [Mkdtemp ''/tmp/ws'',
      Run ''/opt/none/letsgo'' (child_env ?w ?a ''/tmp/ws'') (child_fs ?a ''/tmp/ws'' demo_fs)
        (LaunchFailed (FileNotFoundError ''/opt/none/letsgo'')),
      Rmtree ''/tmp/ws'']"
    by (simp add: trace_letsgo [OF demo_resolve_explicit demo_mkdtemp] demo_child_outcome_missing
          seed_account_key_def k)
qed

text \<open>
  C4, as the code has it. A \<open>bin_name\<close> other than the default is used as given,
  without lookup or check, and the call goes on to create the directory and invoke the
  process with it. The default name is resolved by the path lookup followed by the strict
  resolution of the path found. When resolution fails, the call ends with that failure and
  has performed no operation: no directory created, no process run, the filesystem as it
  was.
\<close>

theorem resolution_as_coded:
  "(bin_name a \<noteq> BIN_NAME \<longrightarrow> resolve_bin w (bin_name a) = Inr (bin_name a)) \<and>
   (bin_name a \<noteq> BIN_NAME \<longrightarrow>
      (\<forall>d. mkdtemp w fs = Inr d \<longrightarrow>
         Mkdtemp d \<in> set (trace (letsgo w a fs)) \<and>
         (\<exists>env f1. Run (bin_name a) env f1 (run_process w (bin_name a) env f1)
                      \<in> set (trace (letsgo w a fs))))) \<and>
   (bin_name a = BIN_NAME \<longrightarrow>
      (\<forall>p. resolve_bin w (bin_name a) = Inr p \<longleftrightarrow>
           (\<exists>q. which w BIN_NAME = Some q \<and> resolve w (pure_path q) = Inr p))) \<and>
   (\<forall>e. resolve_bin w (bin_name a) = Inl e \<longrightarrow>
        result (letsgo w a fs) = Inl e \<and> trace (letsgo w a fs) = [] \<and>
        final_fs (letsgo w a fs) = fs)"
proof (intro conjI allI impI)
  assume "bin_name a \<noteq> BIN_NAME"
  then show given: "resolve_bin w (bin_name a) = Inr (bin_name a)"
    by (simp add: resolve_bin_def)
  fix d
  assume d: "mkdtemp w fs = Inr d"
  show "Mkdtemp d \<in> set (trace (letsgo w a fs))"
    by (simp add: trace_letsgo [OF given d])
  have "Run (bin_name a) (child_env w a d) (child_fs a d fs)
      (run_process w (bin_name a) (child_env w a d) (child_fs a d fs))
      \<in> set (trace (letsgo w a fs))"
    by (simp add: trace_letsgo [OF given d] child_outcome_def)
  then show "\<exists>env f1. Run (bin_name a) env f1 (run_process w (bin_name a) env f1)
      \<in> set (trace (letsgo w a fs))"
    by blast
next
  fix p
  assume "bin_name a = BIN_NAME"
  then show "resolve_bin w (bin_name a) = Inr p \<longleftrightarrow>
      (\<exists>q. which w BIN_NAME = Some q \<and> resolve w (pure_path q) = Inr p)"
    by (auto simp: resolve_bin_def split: option.splits sum.splits)
next
  fix e
  assume "resolve_bin w (bin_name a) = Inl e"
  then have "letsgo w a fs = \<lparr>result = Inl e, final_fs = fs, trace = []\<rparr>"
    by (rule letsgo_resolve_failed)
  then show "result (letsgo w a fs) = Inl e" "trace (letsgo w a fs) = []"
    "final_fs (letsgo w a fs) = fs"
    by simp_all
qed

theorem resolution_as_coded_witness:
  "bin_name (demo_args ''demo.example.com'' [] ''/opt/none/letsgo'') \<noteq> BIN_NAME \<and>
   resolve_bin (demo_world not_on_path missing_binary)
       (bin_name (demo_args ''demo.example.com'' [] ''/opt/none/letsgo'')) =
     Inr ''/opt/none/letsgo'' \<and>
   mkdtemp (demo_world not_on_path missing_binary) demo_fs = Inr ''/tmp/ws'' \<and>
   Mkdtemp ''/tmp/ws'' \<in> set (trace (letsgo (demo_world not_on_path missing_binary)
       (demo_args ''demo.example.com'' [] ''/opt/none/letsgo'') demo_fs)) \<and>
   bin_name (demo_args ''demo.example.com'' [] BIN_NAME) = BIN_NAME \<and>
   which (demo_world on_path missing_binary) BIN_NAME = Some ''/usr/bin/letsgo'' \<and>
   resolve (demo_world on_path missing_binary) (pure_path ''/usr/bin/letsgo'') =
     Inr ''/usr/bin/letsgo'' \<and>
   resolve_bin (demo_world on_path missing_binary)
       (bin_name (demo_args ''demo.example.com'' [] BIN_NAME)) = Inr ''/usr/bin/letsgo'' \<and>
   resolve_bin (demo_world not_on_path missing_binary)
       (bin_name (demo_args ''demo.example.com'' [] BIN_NAME)) = Inl TypeError \<and>
   result (letsgo (demo_world not_on_path missing_binary)
       (demo_args ''demo.example.com'' [] BIN_NAME) demo_fs) = Inl TypeError \<and>
   trace (letsgo (demo_world not_on_path missing_binary)
       (demo_args ''demo.example.com'' [] BIN_NAME) demo_fs) = [] \<and>
   final_fs (letsgo (demo_world not_on_path missing_binary)
       (demo_args ''demo.example.com'' [] BIN_NAME) demo_fs) = demo_fs"
proof -
  let ?wn = "demo_world not_on_path missing_binary"
  let ?wp = "demo_world on_path missing_binary"
  let ?ax = "demo_args ''demo.example.com'' [] ''/opt/none/letsgo''"
  let ?ad = "demo_args ''demo.example.com'' [] BIN_NAME"
  have nx: "bin_name ?ax \<noteq> BIN_NAME" and bx: "bin_name ?ax = ''/opt/none/letsgo''"
    and nd: "bin_name ?ad = BIN_NAME"
    by (simp_all add: demo_args_def BIN_NAME_def)
  have mk: "mkdtemp ?wn demo_fs = Inr ''/tmp/ws''"
    by (rule demo_mkdtemp)
  have wh: "which ?wp BIN_NAME = Some ''/usr/bin/letsgo''"
    by (simp add: demo_world_def on_path_def)
  have rs: "resolve ?wp (pure_path ''/usr/bin/letsgo'') = Inr ''/usr/bin/letsgo''"
    by (simp add: demo_world_def demo_pure_path)
  have fl: "resolve_bin ?wn (bin_name ?ad) = Inl TypeError"
    by (simp add: resolve_bin_def demo_world_def not_on_path_def nd)
  note explicit = resolution_as_coded [of ?ax ?wn demo_fs]
  note default_ok = resolution_as_coded [of ?ad ?wp demo_fs]
  note default_ko = resolution_as_coded [of ?ad ?wn demo_fs]
  from explicit nx have r1: "resolve_bin ?wn (bin_name ?ax) = Inr ''/opt/none/letsgo''"
    unfolding bx by blast
  from explicit [THEN conjunct2, THEN conjunct1, rule_format, OF nx mk]
  have m1: "Mkdtemp ''/tmp/ws'' \<in> set (trace (letsgo ?wn ?ax demo_fs))"
    by (rule conjunct1)
  from default_ok [THEN conjunct2, THEN conjunct2, THEN conjunct1, rule_format, OF nd,
      of "''/usr/bin/letsgo''"] wh rs
  have r2: "resolve_bin ?wp (bin_name ?ad) = Inr ''/usr/bin/letsgo''"
    by blast
  note ko = default_ko [THEN conjunct2, THEN conjunct2, THEN conjunct2, rule_format, OF fl]
  show ?thesis
    by (intro conjI nx r1 mk m1 nd wh rs r2 fl ko [THEN conjunct1]
          ko [THEN conjunct2, THEN conjunct1] ko [THEN conjunct2, THEN conjunct2])
qed

subsection \<open>Failure of the process\<close>



subsection \<open>A missing file\<close>



subsection \<open>Seeding the account key\<close>

text \<open>
  C7. A call with an empty account key writes no file at all. In a call that reaches the
  process, a non-empty account key is written as it is to \<open>account.key\<close> in the
  temporary directory, and this write is the one operation between the creation of the
  directory and the invocation of the process, which finds the key in that file; with an
  empty account key the process is invoked right after the creation of the directory, on
  the files the call started from.
\<close>

theorem account_key_seeded_before_run:
  "(account_key a = [] \<longrightarrow> (\<forall>p c. WriteText p c \<notin> set (trace (letsgo w a fs)))) \<and>
   (\<forall>b env f1 po d.
      Run b env f1 po \<in> set (trace (letsgo w a fs)) \<longrightarrow>
      Mkdtemp d \<in> set (trace (letsgo w a fs)) \<longrightarrow>
        (account_key a \<noteq> [] \<longrightarrow>
           (\<exists>rest. trace (letsgo w a fs) =
              Mkdtemp d # WriteText (joinpath (pure_path d) ACCOUNT_KEYFILE) (account_key a) #
              Run b env f1 po # rest) \<and>
           files f1 (joinpath (pure_path d) ACCOUNT_KEYFILE) = Some (account_key a) \<and>
           po = run_process w b env f1) \<and>
        (account_key a = [] \<longrightarrow>
           (\<exists>rest. trace (letsgo w a fs) = Mkdtemp d # Run b env f1 po # rest) \<and>
           files f1 = files fs \<and>
           po = run_process w b env f1))"
proof (intro conjI allI impI)
  fix p c
  assume e: "account_key a = []"
  show "WriteText p c \<notin> set (trace (letsgo w a fs))"
  proof
    assume in_tr: "WriteText p c \<in> set (trace (letsgo w a fs))"
    then have "trace (letsgo w a fs) \<noteq> []" by auto
    with trace_cases [of w a fs]
    obtain b d where b: "resolve_bin w (bin_name a) = Inr b" and d: "mkdtemp w fs = Inr d"
      by blast
    from in_tr e show False
      unfolding trace_letsgo [OF b d]
      by (auto simp: seed_account_key_def dest: read_artifacts_events
               split: proc_outcome.splits if_splits)
  qed
next
  fix b env f1 po d
  assume run: "Run b env f1 po \<in> set (trace (letsgo w a fs))"
    and mk: "Mkdtemp d \<in> set (trace (letsgo w a fs))"
  from trace_inv_Mkdtemp [OF mk] have d: "mkdtemp w fs = Inr d"
    by simp
  with trace_inv_Run [OF run]
  have b: "resolve_bin w (bin_name a) = Inr b" and env: "env = child_env w a d"
    and f1: "f1 = child_fs a d fs" and po: "po = child_outcome w a b d fs"
    by auto
  show "po = run_process w b env f1" "po = run_process w b env f1"
    by (simp_all add: po env f1 child_outcome_def)
  {
    assume k: "account_key a \<noteq> []"
    show "\<exists>rest. trace (letsgo w a fs) =
              Mkdtemp d # WriteText (joinpath (pure_path d) ACCOUNT_KEYFILE) (account_key a) #
              Run b env f1 po # rest"
      unfolding trace_letsgo [OF b d] env f1 po
      by (simp add: seed_account_key_def k account_key_path_def)
    show "files f1 (joinpath (pure_path d) ACCOUNT_KEYFILE) = Some (account_key a)"
      by (simp add: f1 child_fs_def seed_account_key_def k account_key_path_def write_text_def)
  }
  {
    assume e: "account_key a = []"
    show "\<exists>rest. trace (letsgo w a fs) = Mkdtemp d # Run b env f1 po # rest"
      unfolding trace_letsgo [OF b d] env f1 po
      by (simp add: seed_account_key_def e)
    show "files f1 = files fs"
      by (simp add: f1 child_fs_def seed_account_key_def e mkdir_def)
  }
qed

theorem account_key_seeded_before_run_witness:
  "account_key (demo_args ''demo.example.com'' ''SEED'' BIN_NAME) \<noteq> [] \<and>
   Run ''/usr/bin/letsgo''
       (child_env (demo_world on_path (stub_agent 0 demo_outputs))
          (demo_args ''demo.example.com'' ''SEED'' BIN_NAME) ''/tmp/ws'')
       (child_fs (demo_args ''demo.example.com'' ''SEED'' BIN_NAME) ''/tmp/ws'' demo_fs)
       (child_outcome (demo_world on_path (stub_agent 0 demo_outputs))
          (demo_args ''demo.example.com'' ''SEED'' BIN_NAME) ''/usr/bin/letsgo'' ''/tmp/ws'' demo_fs)
     \<in> set (trace (letsgo (demo_world on_path (stub_agent 0 demo_outputs))
                (demo_args ''demo.example.com'' ''SEED'' BIN_NAME) demo_fs)) \<and>
   Mkdtemp ''/tmp/ws''
     \<in> set (trace (letsgo (demo_world on_path (stub_agent 0 demo_outputs))
                (demo_args ''demo.example.com'' ''SEED'' BIN_NAME) demo_fs)) \<and>
   (\<exists>rest. trace (letsgo (demo_world on_path (stub_agent 0 demo_outputs))
                (demo_args ''demo.example.com'' ''SEED'' BIN_NAME) demo_fs) =
      Mkdtemp ''/tmp/ws'' # WriteText ''/tmp/ws/account.key'' ''SEED'' #
      Run ''/usr/bin/letsgo''
        (child_env (demo_world on_path (stub_agent 0 demo_outputs))
           (demo_args ''demo.example.com'' ''SEED'' BIN_NAME) ''/tmp/ws'')
        (child_fs (demo_args ''demo.example.com'' ''SEED'' BIN_NAME) ''/tmp/ws'' demo_fs)
        (child_outcome (demo_world on_path (stub_agent 0 demo_outputs))
           (demo_args ''demo.example.com'' ''SEED'' BIN_NAME) ''/usr/bin/letsgo'' ''/tmp/ws'' demo_fs) #
      rest) \<and>
   files (child_fs (demo_args ''demo.example.com'' ''SEED'' BIN_NAME) ''/tmp/ws'' demo_fs)
     ''/tmp/ws/account.key'' = Some ''SEED'' \<and>
   account_key (demo_args ''demo.example.com'' [] BIN_NAME) = [] \<and>
   Run ''/usr/bin/letsgo''
       (child_env (demo_world on_path (stub_agent 0 demo_outputs))
          (demo_args ''demo.example.com'' [] BIN_NAME) ''/tmp/ws'')
       (child_fs (demo_args ''demo.example.com'' [] BIN_NAME) ''/tmp/ws'' demo_fs)
       (child_outcome (demo_world on_path (stub_agent 0 demo_outputs))
          (demo_args ''demo.example.com'' [] BIN_NAME) ''/usr/bin/letsgo'' ''/tmp/ws'' demo_fs)
     \<in> set (trace (letsgo (demo_world on_path (stub_agent 0 demo_outputs))
                (demo_args ''demo.example.com'' [] BIN_NAME) demo_fs)) \<and>
   Mkdtemp ''/tmp/ws''
     \<in> set (trace (letsgo (demo_world on_path (stub_agent 0 demo_outputs))
                (demo_args ''demo.example.com'' [] BIN_NAME) demo_fs)) \<and>
   (\<forall>p c. WriteText p c
     \<notin> set (trace (letsgo (demo_world on_path (stub_agent 0 demo_outputs))
                (demo_args ''demo.example.com'' [] BIN_NAME) demo_fs))) \<and>
   files (child_fs (demo_args ''demo.example.com'' [] BIN_NAME) ''/tmp/ws'' demo_fs)
     ''/tmp/ws/account.key'' = None"
proof -
  let ?w = "demo_world on_path (stub_agent 0 demo_outputs)"
  let ?a1 = "demo_args ''demo.example.com'' ''SEED'' BIN_NAME"
  let ?a0 = "demo_args ''demo.example.com'' [] BIN_NAME"
  have k1: "account_key ?a1 \<noteq> []" and k1': "account_key ?a1 = ''SEED''"
    and k0: "account_key ?a0 = []"
    by (simp_all add: demo_args_def)
  have run1: "Run ''/usr/bin/letsgo'' (child_env ?w ?a1 ''/tmp/ws'') (child_fs ?a1 ''/tmp/ws'' demo_fs)
       (child_outcome ?w ?a1 ''/usr/bin/letsgo'' ''/tmp/ws'' demo_fs)
     \<in> set (trace (letsgo ?w ?a1 demo_fs))"
    by (simp add: trace_letsgo [OF demo_resolve demo_mkdtemp])
  have mk1: "Mkdtemp ''/tmp/ws'' \<in> set (trace (letsgo ?w ?a1 demo_fs))"
    by (simp add: trace_letsgo [OF demo_resolve demo_mkdtemp])
  have run0: "Run ''/usr/bin/letsgo'' (child_env ?w ?a0 ''/tmp/ws'') (child_fs ?a0 ''/tmp/ws'' demo_fs)
       (child_outcome ?w ?a0 ''/usr/bin/letsgo'' ''/tmp/ws'' demo_fs)
     \<in> set (trace (letsgo ?w ?a0 demo_fs))"
    by (simp add: trace_letsgo [OF demo_resolve demo_mkdtemp])
  have mk0: "Mkdtemp ''/tmp/ws'' \<in> set (trace (letsgo ?w ?a0 demo_fs))"
    by (simp add: trace_letsgo [OF demo_resolve demo_mkdtemp])
  have akf: "joinpath (pure_path ''/tmp/ws'') ACCOUNT_KEYFILE = ''/tmp/ws/account.key''"
    using demo_account_key_path by (simp add: account_key_path_def)
  note seeded = account_key_seeded_before_run [of ?a1 ?w demo_fs, THEN conjunct2, rule_format,
      OF run1 mk1, THEN conjunct1, rule_format, OF k1]
  note nowrite = account_key_seeded_before_run [of ?a0 ?w demo_fs, THEN conjunct1, rule_format,
      OF k0]
  note unseeded = account_key_seeded_before_run [of ?a0 ?w demo_fs, THEN conjunct2, rule_format,
      OF run0 mk0, THEN conjunct2, rule_format, OF k0]
  from seeded [THEN conjunct1]
  have t1: "\<exists>rest. trace (letsgo ?w ?a1 demo_fs) =
      Mkdtemp ''/tmp/ws'' # WriteText ''/tmp/ws/account.key'' ''SEED'' #
      Run ''/usr/bin/letsgo'' (child_env ?w ?a1 ''/tmp/ws'') (child_fs ?a1 ''/tmp/ws'' demo_fs)
        (child_outcome ?w ?a1 ''/usr/bin/letsgo'' ''/tmp/ws'' demo_fs) # rest"
    unfolding akf k1' .
  from seeded [THEN conjunct2, THEN conjunct1]
  have c1: "files (child_fs ?a1 ''/tmp/ws'' demo_fs) ''/tmp/ws/account.key'' = Some ''SEED''"
    unfolding akf k1' .
  from nowrite
  have n0: "\<forall>p c. WriteText p c \<notin> set (trace (letsgo ?w ?a0 demo_fs))"
    by blast
  from unseeded [THEN conjunct2, THEN conjunct1]
  have "files (child_fs ?a0 ''/tmp/ws'' demo_fs) = files demo_fs" .
  then have c0: "files (child_fs ?a0 ''/tmp/ws'' demo_fs) ''/tmp/ws/account.key'' = None"
    by (simp add: demo_fs_def)
  show ?thesis
    by (intro conjI k1 run1 mk1 t1 c1 k0 run0 mk0 n0 c0)
qed

subsection \<open>Reading the account key back\<close>

text \<open>
  The account key is read back in text mode, so it is not always returned as supplied.
  An agent that writes the three certificate files and leaves \<open>account.key\<close> as it
  found it, called with an account key that ends with a carriage return and a line feed:
  the key returned ends with a line feed alone.
\<close>

theorem crlf_account_key_counterexample:
  "account_key (demo_args ''demo.example.com'' crlf_key BIN_NAME) = crlf_key \<and>
   crlf_key \<noteq> [] \<and>
   Run ''/usr/bin/letsgo''
       (child_env (demo_world on_path (stub_agent 0 demo_outputs_no_account))
          (demo_args ''demo.example.com'' crlf_key BIN_NAME) ''/tmp/ws'')
       (child_fs (demo_args ''demo.example.com'' crlf_key BIN_NAME) ''/tmp/ws'' demo_fs)
       (Exited 0 []
          \<lparr>dirs = {''/tmp/ws'', ''/tmp''},
           files = [''/tmp/ws/account.key'' \<mapsto> crlf_key] ++ map_of demo_outputs_no_account\<rparr>)
     \<in> set (trace (letsgo (demo_world on_path (stub_agent 0 demo_outputs_no_account))
                (demo_args ''demo.example.com'' crlf_key BIN_NAME) demo_fs)) \<and>
   files (child_fs (demo_args ''demo.example.com'' crlf_key BIN_NAME) ''/tmp/ws'' demo_fs)
       ''/tmp/ws/account.key'' = Some crlf_key \<and>
   ([''/tmp/ws/account.key'' \<mapsto> crlf_key] ++ map_of demo_outputs_no_account)
       ''/tmp/ws/account.key'' = Some crlf_key \<and>
   result (letsgo (demo_world on_path (stub_agent 0 demo_outputs_no_account))
             (demo_args ''demo.example.com'' crlf_key BIN_NAME) demo_fs) =
     Inr [''alias'' \<mapsto> ''demo.example.com'',
          ''certificate'' \<mapsto> ''CERT'',
          ''key'' \<mapsto> ''KEY'',
          ''issuer'' \<mapsto> ''ISSUER'',
          ''account_key'' \<mapsto> [CHR ''K'', CHR ''E'', CHR ''Y'', CHR 0x0A]] \<and>
   [CHR ''K'', CHR ''E'', CHR ''Y'', CHR 0x0A] \<noteq> crlf_key"
proof (intro conjI)
  let ?w = "demo_world on_path (stub_agent 0 demo_outputs_no_account)"
  let ?a = "demo_args ''demo.example.com'' crlf_key BIN_NAME"
  let ?f2 = "\<lparr>dirs = {''/tmp/ws'', ''/tmp''},
           files = [''/tmp/ws/account.key'' \<mapsto> crlf_key] ++ map_of demo_outputs_no_account\<rparr>"
  have ne: "crlf_key \<noteq> []"
    by (simp add: crlf_key_def)
  have dm: "domain ?a = ''demo.example.com''"
    by (simp add: demo_args_def)
  have po: "child_outcome ?w ?a ''/usr/bin/letsgo'' ''/tmp/ws'' demo_fs = Exited 0 [] ?f2"
    by (simp add: demo_child_outcome_stub demo_child_fs_seeded [OF ne])
  show "account_key ?a = crlf_key"
    by (simp add: demo_args_def)
  show "crlf_key \<noteq> []"
    by (rule ne)
  show "Run ''/usr/bin/letsgo'' (child_env ?w ?a ''/tmp/ws'') (child_fs ?a ''/tmp/ws'' demo_fs)
       (Exited 0 [] ?f2) \<in> set (trace (letsgo ?w ?a demo_fs))"
    unfolding trace_letsgo [OF demo_resolve demo_mkdtemp] po by simp
  show "files (child_fs ?a ''/tmp/ws'' demo_fs) ''/tmp/ws/account.key'' = Some crlf_key"
    by (simp add: demo_child_fs_files ne)
  show "([''/tmp/ws/account.key'' \<mapsto> crlf_key] ++ map_of demo_outputs_no_account)
       ''/tmp/ws/account.key'' = Some crlf_key"
    by (simp add: demo_outputs_no_account_def map_add_def)
  show "result (letsgo ?w ?a demo_fs) =
     Inr [''alias'' \<mapsto> ''demo.example.com'',
          ''certificate'' \<mapsto> ''CERT'',
          ''key'' \<mapsto> ''KEY'',
          ''issuer'' \<mapsto> ''ISSUER'',
          ''account_key'' \<mapsto> [CHR ''K'', CHR ''E'', CHR ''Y'', CHR 0x0A]]"
    unfolding result_letsgo [OF demo_resolve demo_mkdtemp] po dm demo_alias
    by (simp add: demo_pure_path demo_account_key_path demo_read_artifacts
          demo_outputs_no_account_def map_add_def result_dict_def crlf_key_read)
  show "[CHR ''K'', CHR ''E'', CHR ''Y'', CHR 0x0A] \<noteq> crlf_key"
    by (simp add: crlf_key_def)
qed

text \<open>
  C8, as the code has it. The \<open>account_key\<close> of a result is the content of the
  account-key file as the process left it, read with universal newlines. When the process
  leaves the file of a non-empty supplied key unmodified, the key returned is the supplied
  key with its newlines translated, hence the supplied key itself when it holds no carriage
  return. A returned key never holds a carriage return, so a key obtained from one call and
  supplied to the next comes back unchanged.
\<close>

theorem account_key_read_back:
  assumes "result (letsgo w a fs) = Inr r"
    and "Run b env f1 (Exited rc out f2) \<in> set (trace (letsgo w a fs))"
    and "Mkdtemp d \<in> set (trace (letsgo w a fs))"
  shows "(\<exists>c. files f2 (joinpath (pure_path d) ACCOUNT_KEYFILE) = Some c \<and>
              r ''account_key'' = Some (universal_newlines c)) \<and>
         (account_key a \<noteq> [] \<and>
          files f2 (joinpath (pure_path d) ACCOUNT_KEYFILE) =
            files f1 (joinpath (pure_path d) ACCOUNT_KEYFILE) \<longrightarrow>
            r ''account_key'' = Some (universal_newlines (account_key a))) \<and>
         (account_key a \<noteq> [] \<and>
          files f2 (joinpath (pure_path d) ACCOUNT_KEYFILE) =
            files f1 (joinpath (pure_path d) ACCOUNT_KEYFILE) \<and>
          CHR 0x0D \<notin> set (account_key a) \<longrightarrow>
            r ''account_key'' = Some (account_key a)) \<and>
         (\<forall>k. r ''account_key'' = Some k \<longrightarrow> CHR 0x0D \<notin> set k)"
proof -
  from trace_inv_Mkdtemp [OF assms(3)] have d: "mkdtemp w fs = Inr d"
    by simp
  with trace_inv_Run [OF assms(2)]
  have b: "resolve_bin w (bin_name a) = Inr b"
    and f1: "f1 = child_fs a d fs"
    and po: "child_outcome w a b d fs = Exited rc out f2"
    by auto
  from assms(1) obtain t where
    t: "fst (read_artifacts f2 (pure_path d) (deriveAlias_spec (domain a)) (account_key_path d)) = Inr t"
    and r: "r = result_dict (deriveAlias_spec (domain a)) t"
    unfolding result_letsgo [OF b d] po
    by (auto split: if_splits sum.splits)
  from read_artifacts_Inr [OF t] obtain c1 c2 c3 c4 where
    c4: "files f2 (account_key_path d) = Some c4"
    and t': "t = (universal_newlines c1, universal_newlines c2, universal_newlines c3,
                 universal_newlines c4)"
    by blast
  have rk: "r ''account_key'' = Some (universal_newlines c4)"
    by (simp add: r t' result_dict_def)
  have seeded: "files f1 (account_key_path d) = Some (account_key a)" if "account_key a \<noteq> []"
    using that by (simp add: f1 child_fs_def seed_account_key_def write_text_def)
  have first: "\<exists>c. files f2 (joinpath (pure_path d) ACCOUNT_KEYFILE) = Some c \<and>
              r ''account_key'' = Some (universal_newlines c)"
    using c4 rk by (simp add: account_key_path_def)
  have second: "r ''account_key'' = Some (universal_newlines (account_key a))"
    if "account_key a \<noteq> [] \<and>
        files f2 (joinpath (pure_path d) ACCOUNT_KEYFILE) =
          files f1 (joinpath (pure_path d) ACCOUNT_KEYFILE)"
    using that seeded c4 rk by (simp add: account_key_path_def)
  have third: "r ''account_key'' = Some (account_key a)"
    if "account_key a \<noteq> [] \<and>
        files f2 (joinpath (pure_path d) ACCOUNT_KEYFILE) =
          files f1 (joinpath (pure_path d) ACCOUNT_KEYFILE) \<and>
        CHR 0x0D \<notin> set (account_key a)"
    using that second by (simp add: universal_newlines_id)
  have fourth: "\<forall>k. r ''account_key'' = Some k \<longrightarrow> CHR 0x0D \<notin> set k"
    using rk universal_newlines_no_cr by auto
  from first second third fourth show ?thesis by blast
qed

theorem account_key_read_back_witness:
  "(\<exists>r. result (letsgo (demo_world on_path (stub_agent 0 demo_outputs_no_account))
                 (demo_args ''demo.example.com'' ''SEED'' BIN_NAME) demo_fs) = Inr r \<and>
        r ''account_key'' = Some ''SEED'') \<and>
   Run ''/usr/bin/letsgo''
       (child_env (demo_world on_path (stub_agent 0 demo_outputs_no_account))
          (demo_args ''demo.example.com'' ''SEED'' BIN_NAME) ''/tmp/ws'')
       (child_fs (demo_args ''demo.example.com'' ''SEED'' BIN_NAME) ''/tmp/ws'' demo_fs)
       (Exited 0 []
          \<lparr>dirs = {''/tmp/ws'', ''/tmp''},
           files = [''/tmp/ws/account.key'' \<mapsto> ''SEED''] ++ map_of demo_outputs_no_account\<rparr>)
     \<in> set (trace (letsgo (demo_world on_path (stub_agent 0 demo_outputs_no_account))
                (demo_args ''demo.example.com'' ''SEED'' BIN_NAME) demo_fs)) \<and>
   Mkdtemp ''/tmp/ws''
     \<in> set (trace (letsgo (demo_world on_path (stub_agent 0 demo_outputs_no_account))
                (demo_args ''demo.example.com'' ''SEED'' BIN_NAME) demo_fs)) \<and>
   account_key (demo_args ''demo.example.com'' ''SEED'' BIN_NAME) \<noteq> [] \<and>
   ([''/tmp/ws/account.key'' \<mapsto> ''SEED''] ++ map_of demo_outputs_no_account)
       ''/tmp/ws/account.key'' =
     files (child_fs (demo_args ''demo.example.com'' ''SEED'' BIN_NAME) ''/tmp/ws'' demo_fs)
       ''/tmp/ws/account.key'' \<and>
   CHR 0x0D \<notin> set (account_key (demo_args ''demo.example.com'' ''SEED'' BIN_NAME))"
proof -
  let ?w = "demo_world on_path (stub_agent 0 demo_outputs_no_account)"
  let ?a = "demo_args ''demo.example.com'' ''SEED'' BIN_NAME"
  let ?f1 = "child_fs ?a ''/tmp/ws'' demo_fs"
  let ?f2 = "\<lparr>dirs = {''/tmp/ws'', ''/tmp''},
           files = [''/tmp/ws/account.key'' \<mapsto> ''SEED''] ++ map_of demo_outputs_no_account\<rparr>"
  have dm: "domain ?a = ''demo.example.com''" and k: "account_key ?a = ''SEED''"
    by (simp_all add: demo_args_def)
  have ne: "account_key ?a \<noteq> []" and nocr: "CHR 0x0D \<notin> set (account_key ?a)"
    by (simp_all add: k)
  have po: "child_outcome ?w ?a ''/usr/bin/letsgo'' ''/tmp/ws'' demo_fs = Exited 0 [] ?f2"
    by (simp add: demo_child_outcome_stub demo_child_fs_seeded)
  have run: "Run ''/usr/bin/letsgo'' (child_env ?w ?a ''/tmp/ws'') ?f1 (Exited 0 [] ?f2)
      \<in> set (trace (letsgo ?w ?a demo_fs))"
    unfolding trace_letsgo [OF demo_resolve demo_mkdtemp] po by simp
  have mk: "Mkdtemp ''/tmp/ws'' \<in> set (trace (letsgo ?w ?a demo_fs))"
    by (simp add: trace_letsgo [OF demo_resolve demo_mkdtemp])
  have same: "([''/tmp/ws/account.key'' \<mapsto> ''SEED''] ++ map_of demo_outputs_no_account)
      ''/tmp/ws/account.key'' = files ?f1 ''/tmp/ws/account.key''"
    by (simp add: demo_child_fs_files demo_outputs_no_account_def map_add_def)
  have akf: "joinpath (pure_path ''/tmp/ws'') ACCOUNT_KEYFILE = ''/tmp/ws/account.key''"
    using demo_account_key_path by (simp add: account_key_path_def)
  have "\<exists>r. result (letsgo ?w ?a demo_fs) = Inr r"
    unfolding result_letsgo [OF demo_resolve demo_mkdtemp] po dm demo_alias
    by (simp add: demo_pure_path demo_account_key_path demo_read_artifacts
          demo_outputs_no_account_def map_add_def)
  then obtain r where r: "result (letsgo ?w ?a demo_fs) = Inr r" ..
  from account_key_read_back [OF r run mk, THEN conjunct2, THEN conjunct2, THEN conjunct1]
    ne same nocr
  have "r ''account_key'' = Some (account_key ?a)"
    unfolding akf by simp
  with r k have res: "\<exists>r. result (letsgo ?w ?a demo_fs) = Inr r \<and>
      r ''account_key'' = Some ''SEED''"
    by simp
  show ?thesis
    by (intro conjI res run mk ne same nocr)
qed

subsection \<open>The artifacts returned\<close>




subsection \<open>An empty domains string\<close>

text \<open>
  C10. The empty domains string is not rejected: line 37 never fails and gives the empty
  alias for it, and when the binary is resolved and the directory created, the process is
  invoked with \<open>FILENAME\<close> set to the empty string.
\<close>

theorem empty_domains_not_rejected:
  assumes "domain a = []"
    and "resolve_bin w (bin_name a) = Inr b"
    and "mkdtemp w fs = Inr d"
  shows "main_domain (domain a) = Inr [] \<and>
         (\<forall>s. \<exists>md. main_domain s = Inr md) \<and>
         (\<exists>env f1 po. Run b env f1 po \<in> set (trace (letsgo w a fs)) \<and>
                      env ''FILENAME'' = Some [] \<and>
                      po = run_process w b env f1)"
proof -
  have "main_domain (domain a) = Inr []"
    by (simp add: assms(1) main_domain_def)
  moreover have "\<forall>s. \<exists>md. main_domain s = Inr md"
    by (simp add: main_domain_total)
  moreover have "Run b (child_env w a d) (child_fs a d fs) (child_outcome w a b d fs)
      \<in> set (trace (letsgo w a fs))"
    by (simp add: trace_letsgo [OF assms(2,3)])
  moreover have "child_env w a d ''FILENAME'' = Some []"
    by (simp add: child_env_def workspace_env_def assms(1) deriveAlias_spec_def)
  moreover have "child_outcome w a b d fs = run_process w b (child_env w a d) (child_fs a d fs)"
    by (simp add: child_outcome_def)
  ultimately show ?thesis by blast
qed

theorem empty_domains_not_rejected_witness:
  "domain (demo_args [] [] BIN_NAME) = [] \<and>
   resolve_bin (demo_world on_path (stub_agent 0 demo_outputs))
     (bin_name (demo_args [] [] BIN_NAME)) = Inr ''/usr/bin/letsgo'' \<and>
   mkdtemp (demo_world on_path (stub_agent 0 demo_outputs)) demo_fs = Inr ''/tmp/ws'' \<and>
   main_domain (domain (demo_args [] [] BIN_NAME)) = Inr [] \<and>
   (\<exists>env f1 po.
      Run ''/usr/bin/letsgo'' env f1 po
        \<in> set (trace (letsgo (demo_world on_path (stub_agent 0 demo_outputs))
                   (demo_args [] [] BIN_NAME) demo_fs)) \<and>
      env ''FILENAME'' = Some [] \<and>
      po = run_process (demo_world on_path (stub_agent 0 demo_outputs)) ''/usr/bin/letsgo'' env f1)"
proof -
  have dm: "domain (demo_args [] [] BIN_NAME) = []"
    by (simp add: demo_args_def)
  note main = empty_domains_not_rejected [OF dm demo_resolve demo_mkdtemp]
  show ?thesis
    by (intro conjI dm demo_resolve demo_mkdtemp main [THEN conjunct1]
          main [THEN conjunct2, THEN conjunct2])
qed

end
